theory Spec2Isabelle
  imports
    Complex_Main
    "HOL-Library.Char_ord"
    "HOL-Library.List_Lexorder"
    "HOL-Library.Product_Lexorder"
    "HOL-Library.Multiset"
begin

section \<open>Data model (mealbot/models.py)\<close>

text \<open>
  The dataclasses of \<^verbatim>\<open>models.py\<close> are records. Several dataclasses share field
  names (\<^verbatim>\<open>name\<close>, \<^verbatim>\<open>unit\<close>, \<^verbatim>\<open>category\<close>), and \<^verbatim>\<open>id\<close> is a HOL constant,
  so the fields of \<^verbatim>\<open>Ingredient\<close> carry the prefix \<open>ing_\<close> and those of \<^verbatim>\<open>Recipe\<close>
  the prefix \<open>recipe_\<close> where they would clash; every other field keeps its name.

  Python's \<^verbatim>\<open>int\<close> is \<^typ>\<open>int\<close>. Python's \<^verbatim>\<open>float\<close> is idealised as \<^typ>\<open>real\<close>:
  the arithmetic below is exact, so rounding, overflow to infinity and NaN are outside
  the model. A \<^verbatim>\<open>str\<close> is a list of code points; \<^typ>\<open>char\<close> covers the code points
  below 256, which include every character of the tables of the repository.
\<close>

record Macros =
  calories :: int
  protein_g :: real
  carbs_g :: real
  fat_g :: real

record Ingredient =
  ing_name :: string
  ing_quantity :: real
  ing_unit :: string
  ing_category :: string

record Recipe =
  recipe_ident :: string
  recipe_name :: string
  servings :: int
  prep_time_min :: int
  ingredients :: "Ingredient list"
  instructions :: "string list"
  tags :: "string list"
  macros :: "Macros option"
  season :: "string list"
  storage_days :: int
  reheatable :: bool

record MealSlot =
  day :: string
  meal_type :: string
  recipe_id :: string
  portions :: int

record MealPlan =
  week :: string
  slots :: "MealSlot list"
  prep_order :: "string list"
  total_prep_time_min :: int

text \<open>A recipe table is a Python \<^verbatim>\<open>dict[str, Recipe]\<close>, read only through \<^verbatim>\<open>.get\<close>.\<close>

type_synonym RecipeTable = "string \<rightharpoonup> Recipe"

section \<open>Nutrition validation (mealbot/planner/nutrition.py)\<close>

definition DAILY_PROTEIN_MIN_G :: real where
  "DAILY_PROTEIN_MIN_G = 60"

definition DAILY_CARBS_MAX_G :: real where
  "DAILY_CARBS_MAX_G = 150"

definition HIGH_CARB_THRESHOLD_G :: real where
  "HIGH_CARB_THRESHOLD_G = 50"

record ValidationResult =
  is_valid :: bool
  total :: real
  target :: real
  deficit :: real
  excess :: real

record NutritionValidationResult =
  protein_valid :: bool
  carbs_valid :: bool
  protein_total :: real
  carbs_total :: real
  high_carb_recipes :: "string list option"

text \<open>The property \<^verbatim>\<open>NutritionValidationResult.is_valid\<close>.\<close>

definition overall_is_valid :: "NutritionValidationResult \<Rightarrow> bool" where
  "overall_is_valid r = (protein_valid r \<and> carbs_valid r)"

text \<open>Python's \<^verbatim>\<open>sum\<close> starts from 0 and adds the elements from left to right.\<close>

definition py_sum :: "real list \<Rightarrow> real" where
  "py_sum xs = foldl (+) 0 xs"

definition validate_daily_protein :: "Macros list \<Rightarrow> ValidationResult" where
  "validate_daily_protein daily_macros =
     (let total_protein = py_sum (map protein_g daily_macros);
          valid = (total_protein \<ge> DAILY_PROTEIN_MIN_G);
          d = max 0 (DAILY_PROTEIN_MIN_G - total_protein)
      in \<lparr>is_valid = valid, total = total_protein, target = DAILY_PROTEIN_MIN_G,
          deficit = d, excess = 0\<rparr>)"

definition validate_daily_carbs :: "Macros list \<Rightarrow> ValidationResult" where
  "validate_daily_carbs daily_macros =
     (let total_carbs = py_sum (map carbs_g daily_macros);
          valid = (total_carbs \<le> DAILY_CARBS_MAX_G);
          e = max 0 (total_carbs - DAILY_CARBS_MAX_G)
      in \<lparr>is_valid = valid, total = total_carbs, target = DAILY_CARBS_MAX_G,
          deficit = 0, excess = e\<rparr>)"

definition is_high_carb_recipe :: "Recipe \<Rightarrow> bool" where
  "is_high_carb_recipe recipe =
     (case macros recipe of
        None \<Rightarrow> False
      | Some m \<Rightarrow> carbs_g m > HIGH_CARB_THRESHOLD_G)"

text \<open>
  One iteration of the loop over \<^verbatim>\<open>day_slots\<close>. The loop state is the pair of the two
  lists \<^verbatim>\<open>daily_macros\<close> and \<^verbatim>\<open>high_carb_recipes\<close>, both grown by \<^verbatim>\<open>append\<close>. A
  dataclass instance is always truthy, so \<^verbatim>\<open>recipe and recipe.macros\<close> fails exactly
  when one of the two is \<^verbatim>\<open>None\<close>.
\<close>

definition nutrition_step ::
  "RecipeTable \<Rightarrow> MealSlot \<Rightarrow> Macros list \<times> string list \<Rightarrow> Macros list \<times> string list" where
  "nutrition_step recipes slot st =
     (case recipes (recipe_id slot) of
        None \<Rightarrow> st
      | Some recipe \<Rightarrow>
          (case macros recipe of
             None \<Rightarrow> st
           | Some rm \<Rightarrow>
               (let m = \<lparr>calories = calories rm * portions slot,
                         protein_g = protein_g rm * real_of_int (portions slot),
                         carbs_g = carbs_g rm * real_of_int (portions slot),
                         fat_g = fat_g rm * real_of_int (portions slot)\<rparr>;
                    daily_macros = fst st @ [m];
                    high_carb = (if is_high_carb_recipe recipe
                                 then snd st @ [recipe_ident recipe] else snd st)
                in (daily_macros, high_carb))))"

definition validate_meal_plan_nutrition ::
  "MealPlan \<Rightarrow> RecipeTable \<Rightarrow> string \<Rightarrow> NutritionValidationResult" where
  "validate_meal_plan_nutrition plan recipes d =
     (let day_slots = filter (\<lambda>slot. day slot = d) (slots plan);
          st = fold (nutrition_step recipes) day_slots ([], []);
          daily_macros = fst st;
          high_carb = snd st;
          protein_result = validate_daily_protein daily_macros;
          carbs_result = validate_daily_carbs daily_macros
      in \<lparr>protein_valid = is_valid protein_result,
          carbs_valid = is_valid carbs_result,
          protein_total = total protein_result,
          carbs_total = total carbs_result,
          high_carb_recipes = (if high_carb = [] then None else Some high_carb)\<rparr>)"

section \<open>Strings (Python built-ins used by the aggregator)\<close>

text \<open>
  \<^verbatim>\<open>str.lower\<close> on the code points below 256: the ASCII capitals and the Latin-1
  capitals (U+00C0 to U+00DE without the multiplication sign U+00D7) move up by 32, every
  other code point is unchanged.
\<close>

definition lower_char :: "char \<Rightarrow> char" where
  "lower_char c =
     (let n = (of_char c :: nat)
      in if (65 \<le> n \<and> n \<le> 90) \<or> (192 \<le> n \<and> n \<le> 222 \<and> n \<noteq> 215)
         then char_of (n + 32) else c)"

definition lower :: "string \<Rightarrow> string" where
  "lower s = map lower_char s"

text \<open>
  \<^verbatim>\<open>str.isspace\<close> on the code points below 256: tab to carriage return, the four
  separators U+001C to U+001F, the space, U+0085 and the no-break space U+00A0.
\<close>

definition isspace :: "char \<Rightarrow> bool" where
  "isspace c =
     (let n = (of_char c :: nat)
      in (9 \<le> n \<and> n \<le> 13) \<or> (28 \<le> n \<and> n \<le> 32) \<or> n = 133 \<or> n = 160)"

definition strip :: "string \<Rightarrow> string" where
  "strip s = rev (dropWhile isspace (rev (dropWhile isspace s)))"

text \<open>The operator \<^verbatim>\<open>a in b\<close> on strings: \<open>a\<close> occurs in \<open>b\<close> as a contiguous run.\<close>

fun startswith :: "string \<Rightarrow> string \<Rightarrow> bool" where
  "startswith s [] = True"
| "startswith [] (p # ps) = False"
| "startswith (c # cs) (p # ps) = (c = p \<and> startswith cs ps)"

fun str_in :: "string \<Rightarrow> string \<Rightarrow> bool" where
  "str_in a [] = (a = [])"
| "str_in a (c # cs) = (startswith (c # cs) a \<or> str_in a cs)"

section \<open>Grocery aggregation (mealbot/grocery/aggregator.py)\<close>

datatype IngredientCategory =
  LEGUMES | FRUITS | PROTEINES | EPICERIE | FRAIS | SURGELES | BOISSONS | AUTRE

text \<open>The \<^verbatim>\<open>.value\<close> of each member of the enum.\<close>

fun category_value :: "IngredientCategory \<Rightarrow> string" where
  "category_value LEGUMES = ''legumes''"
| "category_value FRUITS = ''fruits''"
| "category_value PROTEINES = ''proteines''"
| "category_value EPICERIE = ''epicerie''"
| "category_value FRAIS = ''frais''"
| "category_value SURGELES = ''surgeles''"
| "category_value BOISSONS = ''boissons''"
| "category_value AUTRE = ''autre''"

text \<open>
  \<^verbatim>\<open>PANTRY_STAPLES\<close> is a Python set. Its iteration order is not fixed; the list below is
  one order, and \<open>is_pantry_staple\<close> is shown further down not to depend on it.
\<close>

definition PANTRY_STAPLES :: "string list" where
  "PANTRY_STAPLES =
     [''sel'', ''poivre'', ''huile d'' @ [CHR 0x27] @ ''olive'', ''huile'', ''vinaigre'',
      ''sucre'', ''farine'', ''eau'', ''poivre noir'', ''sel fin'', ''gros sel'']"

definition CATEGORY_MAPPING :: "(string \<times> IngredientCategory) list" where
  "CATEGORY_MAPPING =
     [(''legumes'', LEGUMES),
      (''l'' @ [CHR 0xE9] @ ''gumes'', LEGUMES),
      (''fruits'', FRUITS),
      (''proteines'', PROTEINES),
      (''prot'' @ [CHR 0xE9] @ ''ines'', PROTEINES),
      (''viande'', PROTEINES),
      (''poisson'', PROTEINES),
      (''epicerie'', EPICERIE),
      ([CHR 0xE9] @ ''picerie'', EPICERIE),
      (''base'', EPICERIE),
      (''frais'', FRAIS),
      (''surgeles'', SURGELES),
      (''surgel'' @ [CHR 0xE9] @ ''s'', SURGELES),
      (''boissons'', BOISSONS)]"

record GroceryListItem =
  ingredient_name :: string
  total_quantity :: real
  unit :: string
  category :: IngredientCategory
  coop_product_name :: "string option"
  coop_product_url :: "string option"
  coop_price :: "real option"

record GroceryList =
  items :: "GroceryListItem list"

definition total_items :: "GroceryList \<Rightarrow> nat" where
  "total_items gl = length (items gl)"

text \<open>
  \<^verbatim>\<open>by_category\<close> builds a dict whose values are lists. A dict keeps its keys in
  insertion order, so it is an association list with distinct keys: a new key is added at
  the end with an empty list, then the item is appended to the list of its key.
\<close>

definition by_category_step ::
  "GroceryListItem \<Rightarrow> (IngredientCategory \<times> GroceryListItem list) list
     \<Rightarrow> (IngredientCategory \<times> GroceryListItem list) list" where
  "by_category_step item result =
     (let result1 = (if category item \<notin> set (map fst result)
                     then result @ [(category item, [])] else result)
      in map (\<lambda>(c, l). if c = category item then (c, l @ [item]) else (c, l)) result1)"

definition by_category :: "GroceryList \<Rightarrow> (IngredientCategory \<times> GroceryListItem list) list" where
  "by_category gl = fold by_category_step (items gl) []"

definition normalize_ingredient_name :: "string \<Rightarrow> string" where
  "normalize_ingredient_name nm = strip (lower nm)"

text \<open>The loop of \<^verbatim>\<open>_is_pantry_staple\<close>, which returns at the first staple that matches.\<close>

fun staple_loop :: "string list \<Rightarrow> string \<Rightarrow> bool" where
  "staple_loop [] normalized = False"
| "staple_loop (staple # rest) normalized =
     (if str_in staple normalized \<or> str_in normalized staple then True
      else staple_loop rest normalized)"

definition is_pantry_staple :: "string \<Rightarrow> bool" where
  "is_pantry_staple nm = staple_loop PANTRY_STAPLES (normalize_ingredient_name nm)"

definition get_category :: "string \<Rightarrow> IngredientCategory" where
  "get_category category_str =
     (let normalized = strip (lower category_str)
      in case map_of CATEGORY_MAPPING normalized of
           None \<Rightarrow> AUTRE
         | Some c \<Rightarrow> c)"

text \<open>
  The accumulator \<^verbatim>\<open>aggregated\<close> maps a normalized name to a dict with the four keys
  \<^verbatim>\<open>name\<close>, \<^verbatim>\<open>quantity\<close>, \<^verbatim>\<open>unit\<close> and \<^verbatim>\<open>category\<close>. The inner dict is a record, the
  outer one an association list in insertion order, which is the order of
  \<^verbatim>\<open>aggregated.values()\<close>.
\<close>

record AggEntry =
  agg_name :: string
  agg_quantity :: real
  agg_unit :: string
  agg_category :: IngredientCategory

type_synonym Aggregated = "(string \<times> AggEntry) list"

text \<open>\<^verbatim>\<open>aggregated[key]["quantity"] += quantity\<close> on a key that is present.\<close>

definition add_quantity :: "Aggregated \<Rightarrow> string \<Rightarrow> real \<Rightarrow> Aggregated" where
  "add_quantity aggregated key q =
     map (\<lambda>(k, data). if k = key then (k, data\<lparr>agg_quantity := agg_quantity data + q\<rparr>)
                       else (k, data)) aggregated"

text \<open>The body of the loop over \<^verbatim>\<open>recipe.ingredients\<close>.\<close>

definition ingredient_step :: "bool \<Rightarrow> real \<Rightarrow> Ingredient \<Rightarrow> Aggregated \<Rightarrow> Aggregated" where
  "ingredient_step exclude_pantry portion_multiplier ingredient aggregated =
     (let normalized_name = normalize_ingredient_name (ing_name ingredient)
      in if exclude_pantry \<and> is_pantry_staple (ing_name ingredient) then aggregated
         else
           (let q = ing_quantity ingredient * portion_multiplier
            in if normalized_name \<in> set (map fst aggregated)
               then add_quantity aggregated normalized_name q
               else aggregated @
                      [(normalized_name,
                        \<lparr>agg_name = ing_name ingredient, agg_quantity = q,
                         agg_unit = ing_unit ingredient,
                         agg_category = get_category (ing_category ingredient)\<rparr>)]))"

text \<open>
  The only exception the function can raise in this model: \<^verbatim>\<open>portions / servings\<close> is
  Python's true division, which raises \<^verbatim>\<open>ZeroDivisionError\<close> when \<^verbatim>\<open>servings\<close> is 0
  and returns a float for every other divisor, negative ones included.
\<close>

datatype py_error = ZeroDivisionError

text \<open>The body of the loop over \<^verbatim>\<open>plan.slots\<close>.\<close>

definition slot_step :: "RecipeTable \<Rightarrow> bool \<Rightarrow> MealSlot \<Rightarrow> Aggregated \<Rightarrow> py_error + Aggregated" where
  "slot_step recipes exclude_pantry slot aggregated =
     (case recipes (recipe_id slot) of
        None \<Rightarrow> Inr aggregated
      | Some recipe \<Rightarrow>
          if servings recipe = 0 then Inl ZeroDivisionError
          else
            (let portion_multiplier = real_of_int (portions slot) / real_of_int (servings recipe)
             in Inr (fold (ingredient_step exclude_pantry portion_multiplier)
                       (ingredients recipe) aggregated)))"

fun aggregate_slots ::
  "RecipeTable \<Rightarrow> bool \<Rightarrow> MealSlot list \<Rightarrow> Aggregated \<Rightarrow> py_error + Aggregated" where
  "aggregate_slots recipes exclude_pantry [] aggregated = Inr aggregated"
| "aggregate_slots recipes exclude_pantry (slot # rest) aggregated =
     (case slot_step recipes exclude_pantry slot aggregated of
        Inl e \<Rightarrow> Inl e
      | Inr aggregated1 \<Rightarrow> aggregate_slots recipes exclude_pantry rest aggregated1)"

definition to_item :: "AggEntry \<Rightarrow> GroceryListItem" where
  "to_item data =
     \<lparr>ingredient_name = agg_name data, total_quantity = agg_quantity data,
      unit = agg_unit data, category = agg_category data,
      coop_product_name = None, coop_product_url = None, coop_price = None\<rparr>"

text \<open>The key of \<^verbatim>\<open>items.sort\<close>: the pair of the category's value and the lower-cased name.\<close>

definition sort_key_of :: "GroceryListItem \<Rightarrow> string \<times> string" where
  "sort_key_of x = (category_value (category x), lower (ingredient_name x))"

text \<open>
  \<^verbatim>\<open>list.sort\<close> is stable, as is \<^const>\<open>sort_key\<close>; strings compare by code point and
  tuples lexicographically.
\<close>

definition aggregate_ingredients :: "MealPlan \<Rightarrow> RecipeTable \<Rightarrow> bool \<Rightarrow> py_error + GroceryList" where
  "aggregate_ingredients plan recipes exclude_pantry =
     (case aggregate_slots recipes exclude_pantry (slots plan) [] of
        Inl e \<Rightarrow> Inl e
      | Inr aggregated \<Rightarrow>
          Inr \<lparr>items = sort_key sort_key_of (map (\<lambda>(k, data). to_item data) aggregated)\<rparr>)"

section \<open>The category order of the specification\<close>

text \<open>
  The specification states an order of the categories for the sort: produce (vegetables)
  first, then fruits, proteins, fresh, grocery, beverages, frozen and other last. The two
  definitions below follow those words; they are not taken from the aggregator, whose sort
  key is \<^const>\<open>sort_key_of\<close>. The formatter iterates over the buckets in this same order.
\<close>

fun spec_category_rank :: "IngredientCategory \<Rightarrow> nat" where
  "spec_category_rank LEGUMES = 0"
| "spec_category_rank FRUITS = 1"
| "spec_category_rank PROTEINES = 2"
| "spec_category_rank FRAIS = 3"
| "spec_category_rank EPICERIE = 4"
| "spec_category_rank BOISSONS = 5"
| "spec_category_rank SURGELES = 6"
| "spec_category_rank AUTRE = 7"

definition spec_sort_key :: "GroceryListItem \<Rightarrow> nat \<times> string" where
  "spec_sort_key x = (spec_category_rank (category x), lower (ingredient_name x))"

section \<open>Example data\<close>

text \<open>Concrete recipes and plans on which the functions are evaluated further down.\<close>

definition example_pates :: Recipe where
  "example_pates =
     \<lparr>recipe_ident = ''pates'', recipe_name = ''Pates au pesto'', servings = 2,
      prep_time_min = 15, ingredients = [], instructions = [], tags = [],
      macros = Some \<lparr>calories = 600, protein_g = 18, carbs_g = 80, fat_g = 20\<rparr>,
      season = [], storage_days = 3, reheatable = True\<rparr>"

definition example_week :: MealPlan where
  "example_week =
     \<lparr>week = ''2026-W06'',
      slots = [\<lparr>day = ''lundi'', meal_type = ''lunch'', recipe_id = ''pates'', portions = 1\<rparr>,
               \<lparr>day = ''lundi'', meal_type = ''diner'', recipe_id = ''pates'', portions = 1\<rparr>,
               \<lparr>day = ''mardi'', meal_type = ''lunch'', recipe_id = ''pates'', portions = 1\<rparr>],
      prep_order = [], total_prep_time_min = 0\<rparr>"

definition example_salade :: Recipe where
  "example_salade =
     \<lparr>recipe_ident = ''salade'', recipe_name = ''Salade pomme carotte'', servings = 2,
      prep_time_min = 10,
      ingredients =
        [\<lparr>ing_name = ''Pomme'', ing_quantity = 300, ing_unit = ''g'', ing_category = ''fruits''\<rparr>,
         \<lparr>ing_name = ''carotte'', ing_quantity = 200, ing_unit = ''g'', ing_category = ''Legumes''\<rparr>,
         \<lparr>ing_name = '' Sel '', ing_quantity = 2, ing_unit = ''g'', ing_category = ''base''\<rparr>,
         \<lparr>ing_name = ''  '', ing_quantity = 1, ing_unit = ''g'', ing_category = ''base''\<rparr>,
         \<lparr>ing_name = ''POMME '', ing_quantity = 100, ing_unit = ''g'', ing_category = ''fruits''\<rparr>],
      instructions = [], tags = [], macros = None, season = [], storage_days = 3,
      reheatable = True\<rparr>"

definition example_plan :: MealPlan where
  "example_plan =
     \<lparr>week = ''2026-W06'',
      slots = [\<lparr>day = ''lundi'', meal_type = ''lunch'', recipe_id = ''salade'', portions = 1\<rparr>,
               \<lparr>day = ''mardi'', meal_type = ''lunch'', recipe_id = ''salade'', portions = 1\<rparr>],
      prep_order = [], total_prep_time_min = 0\<rparr>"

definition example_recipes :: RecipeTable where
  "example_recipes = [''salade'' \<mapsto> example_salade]"

definition example_list :: GroceryList where
  "example_list =
     \<lparr>items =
        [\<lparr>ingredient_name = ''Pomme'', total_quantity = 400, unit = ''g'', category = FRUITS,
          coop_product_name = None, coop_product_url = None, coop_price = None\<rparr>,
         \<lparr>ingredient_name = ''carotte'', total_quantity = 200, unit = ''g'', category = LEGUMES,
          coop_product_name = None, coop_product_url = None, coop_price = None\<rparr>]\<rparr>"



section \<open>Properties of the nutrition validator\<close>



lemma fold_nutrition_step_count:
  "count_list (snd (fold (nutrition_step recipes) ss st)) i =
     count_list (snd st) i +
     length (filter (\<lambda>s. \<exists>r m. recipes (recipe_id s) = Some r \<and> macros r = Some m
                            \<and> carbs_g m > 50 \<and> recipe_ident r = i) ss)"
proof (induction ss arbitrary: st)
  case Nil
  show ?case by simp
next
  case (Cons s ss)
  have step: "count_list (snd (nutrition_step recipes s st)) i =
      count_list (snd st) i +
      (if \<exists>r m. recipes (recipe_id s) = Some r \<and> macros r = Some m
                  \<and> carbs_g m > 50 \<and> recipe_ident r = i then 1 else 0)"
    by (auto simp: nutrition_step_def is_high_carb_recipe_def HIGH_CARB_THRESHOLD_G_def Let_def
             split: option.splits)
  show ?case
    using Cons.IH [of "nutrition_step recipes s st"] step by (auto split: if_splits)
qed

text \<open>
  C10. \<^verbatim>\<open>high_carb_recipes\<close> gains one entry per slot, not per distinct recipe: an id
  occurs in the list as many times as there are slots of the given day whose recipe is in
  the table, has macros with \<^verbatim>\<open>carbs_g\<close> above 50 and carries that id. When there is no
  such slot the field is \<^verbatim>\<open>None\<close>, never the empty list.
\<close>

theorem high_carb_recipes_per_slot:
  "high_carb_recipes (validate_meal_plan_nutrition plan recipes d) \<noteq> Some []
   \<and> (\<forall>i. count_list (case high_carb_recipes (validate_meal_plan_nutrition plan recipes d) of
                         None \<Rightarrow> [] | Some l \<Rightarrow> l) i =
           length (filter (\<lambda>s. day s = d \<and>
                     (\<exists>r m. recipes (recipe_id s) = Some r \<and> macros r = Some m
                            \<and> carbs_g m > 50 \<and> recipe_ident r = i)) (slots plan)))"
proof -
  let ?hc = "snd (fold (nutrition_step recipes) (filter (\<lambda>slot. day slot = d) (slots plan)) ([], []))"
  have res: "high_carb_recipes (validate_meal_plan_nutrition plan recipes d) =
      (if ?hc = [] then None else Some ?hc)"
    by (simp add: validate_meal_plan_nutrition_def Let_def)
  have cnt: "count_list ?hc i =
      length (filter (\<lambda>s. day s = d \<and>
                     (\<exists>r m. recipes (recipe_id s) = Some r \<and> macros r = Some m
                            \<and> carbs_g m > 50 \<and> recipe_ident r = i)) (slots plan))" for i
    by (simp add: fold_nutrition_step_count conj_commute cong: conj_cong)
  show ?thesis
  proof (cases "?hc = []")
    case True
    then show ?thesis using res cnt [symmetric] by simp
  next
    case False
    then show ?thesis using res cnt by simp
  qed
qed

text \<open>The same high-carb recipe in two slots of a day is listed twice.\<close>

lemma high_carb_recipes_two_slots:
  "high_carb_recipes (validate_meal_plan_nutrition example_week [''pates'' \<mapsto> example_pates] ''lundi'')
     = Some [''pates'', ''pates'']
   \<and> high_carb_recipes (validate_meal_plan_nutrition example_week [''pates'' \<mapsto> example_pates] ''jeudi'')
     = None"
  by (simp add: validate_meal_plan_nutrition_def example_week_def example_pates_def
        nutrition_step_def is_high_carb_recipe_def HIGH_CARB_THRESHOLD_G_def Let_def)

text \<open>
  C2, as the code has it. For a day that no slot of the plan has, the call returns
  without an error: both totals are 0, the carbohydrate check passes, the protein check
  fails (0 is below the minimum of 60), so the overall result is not valid; no high-carb
  recipe is listed.
\<close>

theorem unknown_day_result:
  "\<forall>s \<in> set (slots plan). day s \<noteq> d \<Longrightarrow>
   protein_total (validate_meal_plan_nutrition plan recipes d) = 0
   \<and> carbs_total (validate_meal_plan_nutrition plan recipes d) = 0
   \<and> carbs_valid (validate_meal_plan_nutrition plan recipes d)
   \<and> \<not> protein_valid (validate_meal_plan_nutrition plan recipes d)
   \<and> \<not> overall_is_valid (validate_meal_plan_nutrition plan recipes d)
   \<and> high_carb_recipes (validate_meal_plan_nutrition plan recipes d) = None"
proof -
  assume "\<forall>s \<in> set (slots plan). day s \<noteq> d"
  then have "filter (\<lambda>slot. day slot = d) (slots plan) = []"
    by (simp add: filter_empty_conv)
  then show ?thesis
    by (simp add: validate_meal_plan_nutrition_def validate_daily_protein_def
          validate_daily_carbs_def py_sum_def overall_is_valid_def
          DAILY_PROTEIN_MIN_G_def DAILY_CARBS_MAX_G_def Let_def)
qed

theorem unknown_day_result_witness:
  "''funday'' \<notin> set (map day (slots example_week))
   \<and> protein_total (validate_meal_plan_nutrition example_week [''pates'' \<mapsto> example_pates] ''funday'') = 0
   \<and> \<not> overall_is_valid (validate_meal_plan_nutrition example_week [''pates'' \<mapsto> example_pates] ''funday'')"
proof -
  have h: "\<forall>s \<in> set (slots example_week). day s \<noteq> ''funday''"
    by (simp add: example_week_def)
  have "''funday'' \<notin> set (map day (slots example_week))"
    by (simp add: example_week_def)
  then show ?thesis
    using unknown_day_result [OF h, of "[''pates'' \<mapsto> example_pates]"] by simp
qed

text \<open>
  C2 as the specification states it (the result for such a day is valid) fails: no slot
  of the example week is on \<open>funday\<close>, and the result for that day is not valid.
\<close>

theorem unknown_day_not_valid:
  "map day (slots example_week) = [''lundi'', ''lundi'', ''mardi'']
   \<and> overall_is_valid
       (validate_meal_plan_nutrition example_week [''pates'' \<mapsto> example_pates] ''funday'') = False"
  by (simp add: validate_meal_plan_nutrition_def example_week_def validate_daily_protein_def
        validate_daily_carbs_def py_sum_def overall_is_valid_def
        DAILY_PROTEIN_MIN_G_def DAILY_CARBS_MAX_G_def Let_def)

section \<open>Properties of the pantry filter\<close>





lemma is_pantry_staple_examples:
  "is_pantry_staple ''Huile de colza'' \<and> is_pantry_staple '' SEL '' \<and> is_pantry_staple ''e''
   \<and> \<not> is_pantry_staple ''tofu ferme''"
  by code_simp

section \<open>Properties of the grocery list\<close>

lemma keys_by_category_step:
  "map fst (by_category_step x acc) =
     (if category x \<in> set (map fst acc) then map fst acc else map fst acc @ [category x])"
  by (auto simp: by_category_step_def Let_def split_def comp_def)

lemma distinct_by_category_step:
  "distinct (map fst acc) \<Longrightarrow> distinct (map fst (by_category_step x acc))"
  by (simp add: keys_by_category_step)

lemma map_of_bucket_update:
  "map_of (map (\<lambda>(c, l). if c = k then (c, l @ [x]) else (c, l)) acc) c' =
     (if c' = k then map_option (\<lambda>l. l @ [x]) (map_of acc c') else map_of acc c')"
  by (induction acc) auto

lemma map_of_by_category_step:
  "map_of (by_category_step x acc) c =
     (if c = category x
      then Some ((case map_of acc c of None \<Rightarrow> [] | Some b \<Rightarrow> b) @ [x])
      else map_of acc c)"
proof (cases "map_of acc (category x)")
  case None
  then have "category x \<notin> set (map fst acc)"
    by (simp add: map_of_eq_None_iff)
  with None show ?thesis
    by (simp add: by_category_step_def map_of_bucket_update map_add_def split: option.splits)
next
  case (Some b)
  then have "category x \<in> set (map fst acc)"
    using map_of_eq_None_iff [of acc "category x"] by simp
  with Some show ?thesis
    by (simp add: by_category_step_def map_of_bucket_update)
qed

lemma key_set_by_category_step:
  "fst ` set (by_category_step x acc) = insert (category x) (fst ` set acc)"
proof -
  have "set (map fst (by_category_step x acc)) = insert (category x) (set (map fst acc))"
    by (auto simp: keys_by_category_step)
  then show ?thesis by simp
qed

lemma map_of_fold_by_category_step:
  "map_of (fold by_category_step xs acc) c =
     (if c \<in> category ` set xs \<or> c \<in> fst ` set acc
      then Some ((case map_of acc c of None \<Rightarrow> [] | Some b \<Rightarrow> b) @ filter (\<lambda>i. category i = c) xs)
      else None)"
proof (induction xs arbitrary: acc)
  case Nil
  show ?case
  proof (cases "map_of acc c")
    case None
    then show ?thesis by (simp add: map_of_eq_None_iff)
  next
    case (Some b)
    then have "c \<in> fst ` set acc"
      using map_of_eq_None_iff [of acc c] by simp
    with Some show ?thesis by simp
  qed
next
  case (Cons x xs)
  show ?case
    by (auto simp: Cons.IH [of "by_category_step x acc"] key_set_by_category_step
          map_of_by_category_step)
qed

lemma bucket_sizes_update:
  "distinct (map fst acc) \<Longrightarrow>
   sum_list (map (\<lambda>(c, b). length b)
      (map (\<lambda>(c, l). if c = k then (c, l @ [x]) else (c, l)) acc)) =
   sum_list (map (\<lambda>(c, b). length b) acc) + (if k \<in> fst ` set acc then 1 else 0)"
  by (induction acc) (auto simp: image_iff)

lemma bucket_sizes_step:
  "distinct (map fst acc) \<Longrightarrow>
   sum_list (map (\<lambda>(c, b). length b) (by_category_step x acc)) =
   Suc (sum_list (map (\<lambda>(c, b). length b) acc))"
  by (simp add: by_category_step_def bucket_sizes_update del: map_map)

lemma bucket_items_update:
  "distinct (map fst acc) \<Longrightarrow>
   mset (concat (map snd (map (\<lambda>(c, l). if c = k then (c, l @ [x]) else (c, l)) acc))) =
   mset (concat (map snd acc)) + (if k \<in> fst ` set acc then {#x#} else {#})"
  by (induction acc) (auto simp: image_iff)

lemma bucket_items_step:
  "distinct (map fst acc) \<Longrightarrow>
   mset (concat (map snd (by_category_step x acc))) = mset (concat (map snd acc)) + {#x#}"
  by (simp add: by_category_step_def bucket_items_update del: map_map)

lemma fold_by_category_step_inv:
  "distinct (map fst acc) \<Longrightarrow>
   distinct (map fst (fold by_category_step xs acc))
   \<and> sum_list (map (\<lambda>(c, b). length b) (fold by_category_step xs acc)) =
       sum_list (map (\<lambda>(c, b). length b) acc) + length xs
   \<and> mset (concat (map snd (fold by_category_step xs acc))) =
       mset (concat (map snd acc)) + mset xs"
proof (induction xs arbitrary: acc)
  case Nil
  then show ?case by simp
next
  case (Cons x xs)
  have d: "distinct (map fst (by_category_step x acc))"
    using Cons.prems by (rule distinct_by_category_step)
  show ?case
    using Cons.IH [OF d] Cons.prems
    by (simp add: bucket_sizes_step bucket_items_step)
qed

text \<open>
  C8. \<^verbatim>\<open>by_category\<close> partitions the stored items. The keys of the result are distinct;
  a category is a key exactly when some item has it, and its bucket is then the list of
  the items of that category in their stored order (so every item is in the bucket of its
  own category and in no other); the bucket sizes add up to \<^verbatim>\<open>total_items\<close>; the buckets
  together hold every item as often as the stored sequence does.
\<close>

theorem by_category_partition:
  "distinct (map fst (by_category gl))
   \<and> map_of (by_category gl) c =
       (if c \<in> category ` set (items gl)
        then Some (filter (\<lambda>i. category i = c) (items gl)) else None)
   \<and> sum_list (map (\<lambda>(c, b). length b) (by_category gl)) = total_items gl
   \<and> mset (concat (map snd (by_category gl))) = mset (items gl)"
  using fold_by_category_step_inv [of "[]" "items gl"]
  by (simp add: by_category_def total_items_def map_of_fold_by_category_step)

section \<open>Properties of the aggregation\<close>

lemma keys_add_quantity: "map fst (add_quantity acc k q) = map fst acc"
  by (induction acc) (auto simp: add_quantity_def)

lemma keys_ingredient_step:
  "map fst (ingredient_step ex pm ing acc) =
     (if (ex \<and> is_pantry_staple (ing_name ing))
         \<or> normalize_ingredient_name (ing_name ing) \<in> set (map fst acc)
      then map fst acc
      else map fst acc @ [normalize_ingredient_name (ing_name ing)])"
  by (simp add: ingredient_step_def Let_def keys_add_quantity)

lemma distinct_ingredient_step:
  "distinct (map fst acc) \<Longrightarrow> distinct (map fst (ingredient_step ex pm ing acc))"
  by (simp add: keys_ingredient_step)

lemma names_add_quantity:
  assumes "\<forall>p \<in> set acc. normalize_ingredient_name (agg_name (snd p)) = fst p
              \<and> (ex \<longrightarrow> \<not> is_pantry_staple (agg_name (snd p)))"
  shows "\<forall>p \<in> set (add_quantity acc key q).
            normalize_ingredient_name (agg_name (snd p)) = fst p
            \<and> (ex \<longrightarrow> \<not> is_pantry_staple (agg_name (snd p)))"
  using assms by (auto simp: add_quantity_def split: prod.splits)

lemma names_ingredient_step:
  assumes "\<forall>p \<in> set acc. normalize_ingredient_name (agg_name (snd p)) = fst p
              \<and> (ex \<longrightarrow> \<not> is_pantry_staple (agg_name (snd p)))"
  shows "\<forall>p \<in> set (ingredient_step ex pm ing acc).
            normalize_ingredient_name (agg_name (snd p)) = fst p
            \<and> (ex \<longrightarrow> \<not> is_pantry_staple (agg_name (snd p)))"
proof (cases "ex \<and> is_pantry_staple (ing_name ing)")
  case True
  then have "ingredient_step ex pm ing acc = acc"
    by (simp add: ingredient_step_def)
  then show ?thesis using assms by simp
next
  case False
  show ?thesis
  proof (cases "normalize_ingredient_name (ing_name ing) \<in> set (map fst acc)")
    case True
    have "ingredient_step ex pm ing acc =
            add_quantity acc (normalize_ingredient_name (ing_name ing)) (ing_quantity ing * pm)"
      using True False by (auto simp: ingredient_step_def Let_def)
    then show ?thesis
      using names_add_quantity [OF assms] by simp
  next
    case notin: False
    have "ingredient_step ex pm ing acc =
            acc @ [(normalize_ingredient_name (ing_name ing),
                    \<lparr>agg_name = ing_name ing, agg_quantity = ing_quantity ing * pm,
                     agg_unit = ing_unit ing,
                     agg_category = get_category (ing_category ing)\<rparr>)]"
      using notin False by (auto simp: ingredient_step_def Let_def)
    then show ?thesis
      using assms False by auto
  qed
qed

lemma fold_ingredient_step_inv:
  "distinct (map fst acc) \<Longrightarrow>
   \<forall>p \<in> set acc. normalize_ingredient_name (agg_name (snd p)) = fst p
              \<and> (ex \<longrightarrow> \<not> is_pantry_staple (agg_name (snd p))) \<Longrightarrow>
   distinct (map fst (fold (ingredient_step ex pm) ings acc))
   \<and> (\<forall>p \<in> set (fold (ingredient_step ex pm) ings acc).
         normalize_ingredient_name (agg_name (snd p)) = fst p
         \<and> (ex \<longrightarrow> \<not> is_pantry_staple (agg_name (snd p))))"
proof (induction ings arbitrary: acc)
  case Nil
  then show ?case by simp
next
  case (Cons ing ings)
  show ?case
    using Cons.IH [OF distinct_ingredient_step [OF Cons.prems(1)]
                      names_ingredient_step [OF Cons.prems(2)]]
    by simp
qed

lemma slot_step_cases:
  assumes "slot_step recipes ex slot acc = Inr acc'"
  obtains "recipes (recipe_id slot) = None" "acc' = acc"
  | recipe where "recipes (recipe_id slot) = Some recipe" "servings recipe \<noteq> 0"
      "acc' = fold (ingredient_step ex
                 (real_of_int (portions slot) / real_of_int (servings recipe)))
               (ingredients recipe) acc"
  using assms by (auto simp: slot_step_def Let_def split: option.splits if_splits)

lemma slot_step_inv:
  assumes "slot_step recipes ex slot acc = Inr acc'"
    and "distinct (map fst acc)"
    and "\<forall>p \<in> set acc. normalize_ingredient_name (agg_name (snd p)) = fst p
              \<and> (ex \<longrightarrow> \<not> is_pantry_staple (agg_name (snd p)))"
  shows "distinct (map fst acc')
   \<and> (\<forall>p \<in> set acc'. normalize_ingredient_name (agg_name (snd p)) = fst p
         \<and> (ex \<longrightarrow> \<not> is_pantry_staple (agg_name (snd p))))"
  using assms(1)
proof (cases rule: slot_step_cases)
  case 1
  then show ?thesis using assms(2,3) by simp
next
  case (2 recipe)
  show ?thesis
    unfolding 2(3) using assms(2,3) by (rule fold_ingredient_step_inv)
qed

lemma aggregate_slots_inv:
  "aggregate_slots recipes ex ss acc = Inr acc' \<Longrightarrow>
   distinct (map fst acc) \<Longrightarrow>
   \<forall>p \<in> set acc. normalize_ingredient_name (agg_name (snd p)) = fst p
              \<and> (ex \<longrightarrow> \<not> is_pantry_staple (agg_name (snd p))) \<Longrightarrow>
   distinct (map fst acc')
   \<and> (\<forall>p \<in> set acc'. normalize_ingredient_name (agg_name (snd p)) = fst p
         \<and> (ex \<longrightarrow> \<not> is_pantry_staple (agg_name (snd p))))"
proof (induction ss arbitrary: acc)
  case Nil
  then show ?case by simp
next
  case (Cons s ss)
  from Cons.prems(1) obtain acc1 where
    s1: "slot_step recipes ex s acc = Inr acc1" and
    rest: "aggregate_slots recipes ex ss acc1 = Inr acc'"
    by (auto split: sum.splits)
  from slot_step_inv [OF s1 Cons.prems(2) Cons.prems(3)]
  show ?case using Cons.IH [OF rest] by blast
qed

lemma aggregate_ingredients_Inr:
  assumes "aggregate_ingredients plan recipes ex = Inr gl"
  obtains acc where
    "aggregate_slots recipes ex (slots plan) [] = Inr acc"
    "items gl = sort_key sort_key_of (map (\<lambda>(k, data). to_item data) acc)"
    "distinct (map fst acc)"
    "\<forall>p \<in> set acc. normalize_ingredient_name (agg_name (snd p)) = fst p
         \<and> (ex \<longrightarrow> \<not> is_pantry_staple (agg_name (snd p)))"
proof -
  from assms obtain acc where
    a: "aggregate_slots recipes ex (slots plan) [] = Inr acc" and
    b: "gl = \<lparr>items = sort_key sort_key_of (map (\<lambda>(k, data). to_item data) acc)\<rparr>"
    by (auto simp: aggregate_ingredients_def split: sum.splits)
  from aggregate_slots_inv [OF a] have
    "distinct (map fst acc)"
    "\<forall>p \<in> set acc. normalize_ingredient_name (agg_name (snd p)) = fst p
         \<and> (ex \<longrightarrow> \<not> is_pantry_staple (agg_name (snd p)))"
    by simp_all
  with a b that show ?thesis by simp
qed

lemma normalized_names_of_entries:
  assumes "\<forall>p \<in> set acc. normalize_ingredient_name (agg_name (snd p)) = fst p \<and> Q p"
  shows "map (\<lambda>it. normalize_ingredient_name (ingredient_name it))
           (map (\<lambda>(k, data). to_item data) acc) = map fst acc"
  using assms by (induction acc) (auto simp: to_item_def)

lemma aggregate_names_distinct:
  assumes "aggregate_ingredients plan recipes ex = Inr gl"
  shows "distinct (map (\<lambda>it. normalize_ingredient_name (ingredient_name it)) (items gl))"
proof -
  from assms obtain acc where
    it: "items gl = sort_key sort_key_of (map (\<lambda>(k, data). to_item data) acc)" and
    d: "distinct (map fst acc)" and
    n: "\<forall>p \<in> set acc. normalize_ingredient_name (agg_name (snd p)) = fst p
         \<and> (ex \<longrightarrow> \<not> is_pantry_staple (agg_name (snd p)))"
    by (rule aggregate_ingredients_Inr)
  have "distinct (map (\<lambda>it. normalize_ingredient_name (ingredient_name it))
           (map (\<lambda>(k, data). to_item data) acc))"
    using d by (simp only: normalized_names_of_entries [OF n])
  then show ?thesis
    unfolding it by (simp only: distinct_map set_sort distinct_sort)
qed

text \<open>
  C4. Whatever the plan, the recipe table and the flag, a grocery list that
  \<^verbatim>\<open>aggregate_ingredients\<close> returns has no two items whose names have the same
  normalized (lower-cased, trimmed) form.
\<close>

theorem normalized_names_unique:
  assumes "aggregate_ingredients plan recipes ex = Inr gl"
  shows "distinct (map (\<lambda>it. normalize_ingredient_name (ingredient_name it)) (items gl))"
  using assms by (rule aggregate_names_distinct)

lemma example_aggregate:
  "aggregate_ingredients example_plan example_recipes True = Inr example_list"
  by code_simp

theorem normalized_names_unique_witness:
  "aggregate_ingredients example_plan example_recipes True = Inr example_list
   \<and> distinct (map (\<lambda>it. normalize_ingredient_name (ingredient_name it)) (items example_list))"
proof -
  have h: "aggregate_ingredients example_plan example_recipes True = Inr example_list"
    by (rule example_aggregate)
  from normalized_names_unique [OF h] h show ?thesis by simp
qed

lemma lower_names_distinct:
  assumes "distinct (map (\<lambda>it. normalize_ingredient_name (ingredient_name it)) xs)"
  shows "distinct (map sort_key_of xs)"
proof -
  have "inj_on sort_key_of (set xs)"
  proof (rule inj_onI)
    fix x y assume x: "x \<in> set xs" and y: "y \<in> set xs"
      and eq: "sort_key_of x = sort_key_of y"
    from eq have "lower (ingredient_name x) = lower (ingredient_name y)"
      by (simp add: sort_key_of_def)
    then have "normalize_ingredient_name (ingredient_name x)
                 = normalize_ingredient_name (ingredient_name y)"
      by (simp add: normalize_ingredient_name_def)
    with assms x y show "x = y"
      by (simp add: distinct_map inj_on_def)
  qed
  moreover from assms have "distinct xs" by (simp add: distinct_map)
  ultimately show ?thesis by (simp add: distinct_map)
qed

text \<open>
  C3, as the code has it. The returned list is strictly ascending in the pair of the
  category's \<^verbatim>\<open>value\<close> string and the lower-cased name. Strings compare by code point,
  so the categories come in the alphabetical order of their values: autre, boissons,
  epicerie, frais, fruits, legumes, proteines, surgeles. No two items have the same key,
  so no tie is left to break.
\<close>

theorem items_sorted_by_value_and_name:
  assumes "aggregate_ingredients plan recipes ex = Inr gl"
  shows "sorted_wrt (<)
           (map (\<lambda>x. (category_value (category x), lower (ingredient_name x))) (items gl))
         \<and> sorted_wrt (<) (map category_value
               [AUTRE, BOISSONS, EPICERIE, FRAIS, FRUITS, LEGUMES, PROTEINES, SURGELES])"
proof -
  from assms obtain acc where
    "aggregate_slots recipes ex (slots plan) [] = Inr acc" and
    it: "items gl = sort_key sort_key_of (map (\<lambda>(k, data). to_item data) acc)" and
    "distinct (map fst acc)" and
    "\<forall>p \<in> set acc. normalize_ingredient_name (agg_name (snd p)) = fst p
         \<and> (ex \<longrightarrow> \<not> is_pantry_staple (agg_name (snd p)))"
    by (rule aggregate_ingredients_Inr)
  have key: "(\<lambda>x. (category_value (category x), lower (ingredient_name x))) = sort_key_of"
    by (simp add: sort_key_of_def fun_eq_iff)
  have "sorted (map sort_key_of (items gl))"
    unfolding it by (rule sorted_sort_key)
  moreover have "distinct (map sort_key_of (items gl))"
    using aggregate_names_distinct [OF assms] by (rule lower_names_distinct)
  ultimately have "sorted_wrt (<) (map sort_key_of (items gl))"
    by (simp add: strict_sorted_iff)
  moreover have "sorted_wrt (<) (map category_value
               [AUTRE, BOISSONS, EPICERIE, FRAIS, FRUITS, LEGUMES, PROTEINES, SURGELES])"
    by simp
  ultimately show ?thesis by (simp only: key)
qed

theorem items_sorted_by_value_and_name_witness:
  "aggregate_ingredients example_plan example_recipes True = Inr example_list
   \<and> sorted_wrt (<)
       (map (\<lambda>x. (category_value (category x), lower (ingredient_name x))) (items example_list))"
proof -
  have h: "aggregate_ingredients example_plan example_recipes True = Inr example_list"
    by (rule example_aggregate)
  from items_sorted_by_value_and_name [OF h] h show ?thesis by simp
qed

text \<open>
  C3 as the specification states it (produce first, then fruits, and so on) fails: the
  example list comes out with the fruit before the vegetable, which is not ascending in
  the specification's category order.
\<close>

theorem items_not_in_spec_category_order:
  "aggregate_ingredients example_plan example_recipes True = Inr example_list
   \<and> map category (items example_list) = [FRUITS, LEGUMES]
   \<and> \<not> sorted (map spec_sort_key (items example_list))"
  by code_simp





lemma str_in_Nil: "str_in [] b"
  by (induction b) simp_all

lemma empty_name_is_staple:
  "normalize_ingredient_name nm = [] \<Longrightarrow> is_pantry_staple nm"
  by (simp add: is_pantry_staple_def PANTRY_STAPLES_def str_in_Nil)

text \<open>
  C9. A name that normalizes to the empty string is a pantry staple, the empty string
  being a substring of every staple of the non-empty table; so with
  \<^verbatim>\<open>exclude_pantry = True\<close> no item of a returned list has a name that normalizes to the
  empty string.
\<close>

theorem blank_name_excluded:
  "(normalize_ingredient_name nm = [] \<longrightarrow> is_pantry_staple nm)
   \<and> (aggregate_ingredients plan recipes True = Inr gl \<longrightarrow>
        [] \<notin> set (map (\<lambda>it. normalize_ingredient_name (ingredient_name it)) (items gl)))"
proof (intro conjI impI)
  assume "normalize_ingredient_name nm = []"
  then show "is_pantry_staple nm" by (rule empty_name_is_staple)
next
  assume a: "aggregate_ingredients plan recipes True = Inr gl"
  then obtain acc where
    "aggregate_slots recipes True (slots plan) [] = Inr acc" and
    it: "items gl = sort_key sort_key_of (map (\<lambda>(k, data). to_item data) acc)" and
    "distinct (map fst acc)" and
    n: "\<forall>p \<in> set acc. normalize_ingredient_name (agg_name (snd p)) = fst p
         \<and> (True \<longrightarrow> \<not> is_pantry_staple (agg_name (snd p)))"
    by (rule aggregate_ingredients_Inr)
  show "[] \<notin> set (map (\<lambda>it. normalize_ingredient_name (ingredient_name it)) (items gl))"
  proof
    assume "[] \<in> set (map (\<lambda>it. normalize_ingredient_name (ingredient_name it)) (items gl))"
    then obtain p where p: "p \<in> set acc"
      and e: "normalize_ingredient_name (ingredient_name (to_item (snd p))) = []"
      unfolding it by (auto simp: split_def)
    from e have "normalize_ingredient_name (agg_name (snd p)) = []"
      by (simp add: to_item_def)
    then have "is_pantry_staple (agg_name (snd p))" by (rule empty_name_is_staple)
    with n p show False by simp
  qed
qed

theorem blank_name_excluded_witness:
  "normalize_ingredient_name ''  '' = [] \<and> is_pantry_staple ''  ''
   \<and> ''  '' \<in> set (map ing_name (ingredients example_salade))
   \<and> aggregate_ingredients example_plan example_recipes True = Inr example_list
   \<and> [] \<notin> set (map (\<lambda>it. normalize_ingredient_name (ingredient_name it)) (items example_list))"
proof -
  have n: "normalize_ingredient_name ''  '' = []"
    by code_simp
  have i: "''  '' \<in> set (map ing_name (ingredients example_salade))"
    by (simp add: example_salade_def)
  have h: "aggregate_ingredients example_plan example_recipes True = Inr example_list"
    by (rule example_aggregate)
  from blank_name_excluded [of "''  ''" example_plan example_recipes example_list] n i h
  show ?thesis by simp
qed

section \<open>Quantities of a repeated recipe\<close>













end
